theory Spec2Isabelle
  imports Main "HOL-Library.Sublist" "HOL-Library.List_Lexorder" "HOL-Library.Char_ord"
    "HOL-Library.AList" "HOL-Library.Multiset"
begin

section \<open>Strings\<close>

text \<open>
  Strings of the program are modelled as \<open>string\<close> (lists of 8-bit characters) and range
  over ASCII text, which is what package names, directory names and concept ids of the
  ecosystem are made of.  On that range \<open>String.prototype.toLowerCase\<close> and
  \<open>toUpperCase\<close> act letter by letter on \<open>A\<close>..\<open>Z\<close> and \<open>a\<close>..\<open>z\<close> and leave every
  other character alone.
\<close>

definition lower_char :: "char \<Rightarrow> char" where
  "lower_char c =
     (if CHR ''A'' \<le> c \<and> c \<le> CHR ''Z'' then char_of (of_char c + (32::nat)) else c)"

definition upper_char :: "char \<Rightarrow> char" where
  "upper_char c =
     (if CHR ''a'' \<le> c \<and> c \<le> CHR ''z'' then char_of (of_char c - (32::nat)) else c)"

definition toLowerCase :: "string \<Rightarrow> string" where
  "toLowerCase s = map lower_char s"

definition toUpperCase :: "string \<Rightarrow> string" where
  "toUpperCase s = map upper_char s"

text \<open>\<open>s.includes(t)\<close>: \<open>t\<close> occurs in \<open>s\<close> as a contiguous run.\<close>

fun includes_str :: "string \<Rightarrow> string \<Rightarrow> bool" where
  "includes_str [] t = (t = [])"
| "includes_str (c # cs) t = (prefix t (c # cs) \<or> includes_str cs t)"

text \<open>\<open>s.replace(/^pre/, "")\<close>: drop the literal prefix when the string starts with it.\<close>

definition remove_prefix :: "string \<Rightarrow> string \<Rightarrow> string" where
  "remove_prefix pre s = (if prefix pre s then drop (length pre) s else s)"

text \<open>\<open>s.replace(/a/g, "b")\<close> for single characters \<open>a\<close> and \<open>b\<close>.\<close>

definition replace_char :: "char \<Rightarrow> char \<Rightarrow> string \<Rightarrow> string" where
  "replace_char a b s = map (\<lambda>c. if c = a then b else c) s"

text \<open>
  The ASCII characters matched by the regular expression class \<open>\s\<close>: tab, line feed,
  vertical tab, form feed, carriage return and space.
\<close>

definition is_space :: "char \<Rightarrow> bool" where
  "is_space c = (c \<in> set [CHR 0x09, CHR 0x0A, CHR 0x0B, CHR 0x0C, CHR 0x0D, CHR 0x20])"

text \<open>
  \<open>s.split(/\s+/)\<close>: the pieces between maximal runs of white space.  A string that starts
  (ends) with white space yields an empty first (last) piece, and the empty string yields
  one empty piece, as in the source language.  \<open>split_from sep cur s\<close> scans \<open>s\<close> with the
  piece under construction \<open>cur\<close>, kept in reverse; \<open>sep\<close> tells that the scan is inside
  a separator.
\<close>

fun split_from :: "bool \<Rightarrow> string \<Rightarrow> string \<Rightarrow> string list" where
  "split_from sep cur [] = [rev cur]"
| "split_from sep cur (c # cs) =
     (if is_space c
      then (if sep then split_from True cur cs else rev cur # split_from True [] cs)
      else split_from False (c # cur) cs)"

definition split_ws :: "string \<Rightarrow> string list" where
  "split_ws s = split_from False [] s"

text \<open>\<open>xs.join(sep)\<close>.\<close>

fun join :: "string \<Rightarrow> string list \<Rightarrow> string" where
  "join sep [] = []"
| "join sep [x] = x"
| "join sep (x # y # ys) = x @ sep @ join sep (y # ys)"

text \<open>The line feed, and the decimal rendering of a natural number.\<close>

definition nl :: string where
  "nl = [CHR 0x0A]"

fun show_nat :: "nat \<Rightarrow> string" where
  "show_nat n =
     (if n < 10 then [''0123456789'' ! n]
      else show_nat (n div 10) @ [''0123456789'' ! (n mod 10)])"

definition show_int :: "int \<Rightarrow> string" where
  "show_int k = (if k < 0 then ''-'' @ show_nat (nat (- k)) else show_nat (nat k))"

section \<open>Collections\<close>

text \<open>
  A \<open>Set\<close> is the list of its members in insertion order, a \<open>Map\<close> the association list
  of its entries in insertion order: \<open>set_add\<close> is \<open>Set.prototype.add\<close>,
  \<open>new_Set xs\<close> is \<open>new Set(xs)\<close>, \<^const>\<open>map_of\<close> is \<open>Map.prototype.get\<close> and
  \<^const>\<open>AList.update\<close> is \<open>Map.prototype.set\<close> (an existing key keeps its place, a
  new key goes last).
\<close>

definition set_add :: "'a list \<Rightarrow> 'a \<Rightarrow> 'a list" where
  "set_add xs x = (if x \<in> set xs then xs else xs @ [x])"

definition new_Set :: "'a list \<Rightarrow> 'a list" where
  "new_Set xs = foldl set_add [] xs"

text \<open>
  \<open>Array.prototype.sort\<close> with a comparison function is a stable sort: \<open>x\<close> stays in
  front of a later \<open>y\<close> unless the comparison puts \<open>y\<close> strictly first.  It is modelled
  as insertion sort, which is what every stable sort computes when the comparison function
  is consistent.  Without a comparison function, strings are sorted by their code units,
  which is \<^const>\<open>sort\<close> in the lexicographic order of \<open>string\<close>.
\<close>

fun insert_by :: "('a \<Rightarrow> 'a \<Rightarrow> int) \<Rightarrow> 'a \<Rightarrow> 'a list \<Rightarrow> 'a list" where
  "insert_by cmp x [] = [x]"
| "insert_by cmp x (y # ys) =
     (if cmp x y \<le> 0 then x # y # ys else y # insert_by cmp x ys)"

definition sort_by :: "('a \<Rightarrow> 'a \<Rightarrow> int) \<Rightarrow> 'a list \<Rightarrow> 'a list" where
  "sort_by cmp xs = foldr (insert_by cmp) xs []"

text \<open>
  Two instances of the parameters that stand for host arithmetic and collation, to run the
  model on: the comparison of strings by their code units, and the percentage rounded to
  the nearest integer in exact arithmetic.
\<close>

definition codeunit_compare :: "string \<Rightarrow> string \<Rightarrow> int" where
  "codeunit_compare a b = (if a < b then - 1 else if a = b then 0 else 1)"

definition nearest_percent :: "int \<Rightarrow> int \<Rightarrow> string" where
  "nearest_percent gap slots = show_int ((200 * (slots - gap) + slots) div (2 * slots))"

section \<open>Data model\<close>

datatype Language = TypeScript | Circom | Solidity | Noir | Rust

datatype Category = MerkleTrees | Cryptography | Identity | AccessControl | Math | Other

text \<open>The string each member of the \<open>Language\<close> enumeration is at run time.\<close>

fun language_str :: "Language \<Rightarrow> string" where
  "language_str TypeScript = ''typescript''"
| "language_str Circom = ''circom''"
| "language_str Solidity = ''solidity''"
| "language_str Noir = ''noir''"
| "language_str Rust = ''rust''"

fun category_str :: "Category \<Rightarrow> string" where
  "category_str MerkleTrees = ''merkle-trees''"
| "category_str Cryptography = ''cryptography''"
| "category_str Identity = ''identity''"
| "category_str AccessControl = ''access-control''"
| "category_str Math = ''math''"
| "category_str Other = ''other''"

record RepoConfig =
  slug :: string
  repo_language :: Language
  packagePath :: string
  branch :: string

record Package =
  name :: string
  dirName :: string
  language :: Language
  category :: Category
  repo :: string
  description :: string
  installCommand :: string
  crossLanguageId :: string
  version :: "string option"
  zkKitDependencies :: "string list"

section \<open>Configuration: naming and categorisation rules\<close>


text \<open>
  The override table, typed \<open>Partial<Record<Language, Record<string, string>>>\<close> in the
  source: a finite map from languages to finite maps from directory names to names.
\<close>

definition NAME_OVERRIDES :: "Language \<rightharpoonup> (string \<rightharpoonup> string)" where
  "NAME_OVERRIDES = [Solidity \<mapsto> [''excubiae'' \<mapsto> ''@zk-kit/excubiae'']]"

text \<open>
  \<open>NAME_OVERRIDES[language]?.[dirName]\<close>, at the declared type
  \<open>Partial<Record<Language, Record<string, string>>>\<close>: the lookup yields an entry of the
  table or nothing.
\<close>

definition override_lookup :: "Language \<Rightarrow> string \<Rightarrow> string option" where
  "override_lookup lang dir =
     (case NAME_OVERRIDES lang of None \<Rightarrow> None | Some table \<Rightarrow> table dir)"

text \<open>
  \<open>if (override) return override\<close> takes the override when it is a non-empty string; the
  \<open>switch\<close> over the language follows.
\<close>

definition deriveName :: "string \<Rightarrow> Language \<Rightarrow> string" where
  "deriveName dir lang =
     (case override_lookup lang dir of
        Some override \<Rightarrow>
          if override \<noteq> [] then override
          else (case lang of
                  TypeScript \<Rightarrow> ''@zk-kit/'' @ dir
                | Circom \<Rightarrow> ''@zk-kit/'' @ dir @ ''.circom''
                | Solidity \<Rightarrow> ''@zk-kit/'' @ dir @ ''.sol''
                | Noir \<Rightarrow> replace_char CHR ''-'' CHR ''_'' dir
                | Rust \<Rightarrow> ''zk-kit-'' @ dir)
      | None \<Rightarrow>
          (case lang of
             TypeScript \<Rightarrow> ''@zk-kit/'' @ dir
           | Circom \<Rightarrow> ''@zk-kit/'' @ dir @ ''.circom''
           | Solidity \<Rightarrow> ''@zk-kit/'' @ dir @ ''.sol''
           | Noir \<Rightarrow> replace_char CHR ''-'' CHR ''_'' dir
           | Rust \<Rightarrow> ''zk-kit-'' @ dir))"


text \<open>The double quote character.\<close>

definition dquote :: string where
  "dquote = [CHR 0x22]"

definition deriveInstallCommand :: "string \<Rightarrow> string \<Rightarrow> Language \<Rightarrow> string \<Rightarrow> string" where
  "deriveInstallCommand nm dir lang slg =
     (case lang of
        TypeScript \<Rightarrow> ''npm i '' @ nm
      | Circom \<Rightarrow> ''npm i '' @ nm
      | Solidity \<Rightarrow> ''npm i '' @ nm
      | Noir \<Rightarrow> ''Add to Nargo.toml: '' @ nm @ '' = { git = '' @ dquote
                 @ ''https://github.com/'' @ slg @ dquote @ '', tag = '' @ dquote @ ''main''
                 @ dquote @ '', directory = '' @ dquote @ ''packages/'' @ dir @ dquote @ '' }''
      | Rust \<Rightarrow> ''cargo add '' @ nm)"

subsection \<open>Regular expressions\<close>

text \<open>
  The fragment of regular expressions the category rules are written in: literals, the
  anchors \<open>^\<close> and \<open>$\<close> (no multi-line flag), alternation, sequence and the optional
  \<open>?\<close>.  \<open>rmatch r s i\<close> lists the positions at which a match of \<open>r\<close> that starts at
  position \<open>i\<close> of \<open>s\<close> can end, in the order a backtracking matcher tries them;
  \<open>RegExp.prototype.test\<close> succeeds when a match starts at some position.
\<close>

datatype regex = Lit string | Bol | Eol | Alt regex regex | Seq regex regex | Opt regex

fun rmatch :: "regex \<Rightarrow> string \<Rightarrow> nat \<Rightarrow> nat list" where
  "rmatch (Lit w) s i = (if take (length w) (drop i s) = w then [i + length w] else [])"
| "rmatch Bol s i = (if i = 0 then [i] else [])"
| "rmatch Eol s i = (if i = length s then [i] else [])"
| "rmatch (Alt a b) s i = rmatch a s i @ rmatch b s i"
| "rmatch (Seq a b) s i = concat (map (rmatch b s) (rmatch a s i))"
| "rmatch (Opt a) s i = rmatch a s i @ [i]"

definition regex_test :: "regex \<Rightarrow> string \<Rightarrow> bool" where
  "regex_test r s = list_ex (\<lambda>i. rmatch r s i \<noteq> []) [0..<Suc (length s)]"

text \<open>\<open>(?:w1|w2|...)\<close>\<close>

fun alts :: "regex list \<Rightarrow> regex" where
  "alts [] = Lit []"
| "alts [r] = r"
| "alts (r # r' # rs) = Alt r (alts (r' # rs))"

text \<open>\<open>/(?:^|-)(?:...)(?:-|$)/\<close> around a group of alternatives.\<close>

definition anchored :: "regex list \<Rightarrow> regex" where
  "anchored ws = Seq (Alt Bol (Lit ''-'')) (Seq (alts ws) (Alt (Lit ''-'') Eol))"

definition CATEGORY_RULES :: "(regex \<times> Category) list" where
  "CATEGORY_RULES =
    [ (anchored [Lit ''imt'', Lit ''merkle'', Lit ''smt'', Lit ''pmt''], MerkleTrees),
      (anchored [Lit ''eddsa'', Lit ''ecdh'', Lit ''poseidon'',
                 Seq (Lit ''baby'') (Seq (Opt (Lit ''-'')) (Lit ''jubjub''))], Cryptography),
      (anchored [Lit ''excubiae''], AccessControl),
      (anchored [Lit ''semaphore'', Lit ''rln'', Lit ''identity''], Identity),
      (anchored [Lit ''utils'', Lit ''math''], Math) ]"

text \<open>The loop over the rules: the first pattern that matches decides.\<close>

fun first_rule :: "(regex \<times> Category) list \<Rightarrow> string \<Rightarrow> Category" where
  "first_rule [] dir = Other"
| "first_rule ((pattern, cat) # rules) dir =
     (if regex_test pattern dir then cat else first_rule rules dir)"

definition inferCategory :: "string \<Rightarrow> Category" where
  "inferCategory dir = first_rule CATEGORY_RULES dir"

definition deriveCrossLanguageId :: "string \<Rightarrow> string" where
  "deriveCrossLanguageId dir = dir"

text \<open>
  The occurrence of a keyword \<open>w\<close> in \<open>s\<close> as a whole hyphen-delimited token: it starts
  at the start of the string or right after a hyphen, and ends at the end of the string or
  right before a hyphen.  \<open>rule_keywords\<close> lists, rule by rule, the keywords of the categories
  in the order of the rules.
\<close>

definition delimited_at :: "string \<Rightarrow> string \<Rightarrow> nat \<Rightarrow> bool" where
  "delimited_at w s i =
     (i + length w \<le> length s \<and> take (length w) (drop i s) = w
      \<and> (i = 0 \<or> s ! (i - 1) = CHR ''-'')
      \<and> (i + length w = length s \<or> s ! (i + length w) = CHR ''-''))"

definition delimited :: "string \<Rightarrow> string \<Rightarrow> bool" where
  "delimited w s = list_ex (delimited_at w s) [0..<Suc (length s)]"

definition rule_keywords :: "(string list \<times> Category) list" where
  "rule_keywords =
    [ ([''imt'', ''merkle'', ''smt'', ''pmt''], MerkleTrees),
      ([''eddsa'', ''ecdh'', ''poseidon'', ''baby-jubjub'', ''babyjubjub''], Cryptography),
      ([''excubiae''], AccessControl),
      ([''semaphore'', ''rln'', ''identity''], Identity),
      ([''utils'', ''math''], Math) ]"

text \<open>
  A rule of the specification matches when one of its keywords occurs as a whole token;
  \<open>occurs_at w s j\<close> says that \<open>w\<close> is in \<open>s\<close> at position \<open>j\<close>.
\<close>

definition rule_matches :: "string list \<Rightarrow> string \<Rightarrow> bool" where
  "rule_matches ws s = list_ex (\<lambda>w. delimited w s) ws"

definition occurs_at :: "string \<Rightarrow> string \<Rightarrow> nat \<Rightarrow> bool" where
  "occurs_at w s j = (take (length w) (drop j s) = w)"

section \<open>Package registry: name resolution\<close>

text \<open>
  The registry's state is its package array; every query below takes it as the argument
  \<open>packages\<close>.  \<open>Array.prototype.find\<close> is \<^const>\<open>find\<close>: the first element that
  satisfies the predicate, or nothing.
\<close>

definition getByName :: "Package list \<Rightarrow> string \<Rightarrow> Package option" where
  "getByName packages query =
     (let lower = toLowerCase query in
      case find (\<lambda>p. toLowerCase (name p) = lower) packages of
        Some exact \<Rightarrow> Some exact
      | None \<Rightarrow>
     (case find (\<lambda>p. remove_prefix ''@zk-kit/'' (toLowerCase (name p)) = lower) packages of
        Some stripped \<Rightarrow> Some stripped
      | None \<Rightarrow>
     (case find (\<lambda>p. toLowerCase (dirName p) = lower) packages of
        Some byDir \<Rightarrow> Some byDir
      | None \<Rightarrow>
     (let normalized = replace_char CHR ''_'' CHR ''-'' lower;
          withoutPrefix = remove_prefix ''zk-kit-'' normalized
      in if normalized \<noteq> lower \<or> withoutPrefix \<noteq> normalized
         then find (\<lambda>p. toLowerCase (dirName p) = withoutPrefix
                       \<or> toLowerCase (dirName p) = normalized) packages
         else None))))"






section \<open>Package registry: suggestion and search\<close>

text \<open>\<open>q.toLowerCase().split(/\s+/).filter(Boolean)\<close>\<close>

definition query_terms :: "string \<Rightarrow> string list" where
  "query_terms q = filter (\<lambda>t. t \<noteq> []) (split_ws (toLowerCase q))"

definition suggest :: "Package list \<Rightarrow> string \<Rightarrow> nat \<Rightarrow> Package list" where
  "suggest packages nm limit =
     (let terms = query_terms nm
      in take limit
           (filter (\<lambda>p. let nameLower = toLowerCase (name p); dirLower = toLowerCase (dirName p)
                        in list_all (\<lambda>term. includes_str nameLower term
                                             \<or> includes_str dirLower term) terms)
                   packages))"

text \<open>
  The scoring loop of \<open>search\<close> over the terms, with the running \<open>score\<close>: a term that
  matches no field ends the loop with score 0.
\<close>

fun score_loop :: "string \<Rightarrow> string \<Rightarrow> string \<Rightarrow> string list \<Rightarrow> nat \<Rightarrow> nat" where
  "score_loop nameLower dirLower descLower [] score = score"
| "score_loop nameLower dirLower descLower (term # terms) score =
     (let termScore = (if includes_str nameLower term then 3 else 0)
                    + (if includes_str dirLower term then 2 else 0)
                    + (if includes_str descLower term then 1 else 0)
      in if termScore = 0 then 0
         else score_loop nameLower dirLower descLower terms (score + termScore))"

definition score_of :: "string list \<Rightarrow> Package \<Rightarrow> nat" where
  "score_of terms p =
     score_loop (toLowerCase (name p)) (toLowerCase (dirName p)) (toLowerCase (description p))
       terms 0"

text \<open>
  \<open>search(query?, language?, category?)\<close>: an absent argument is \<open>None\<close>; \<open>if (query)\<close>
  holds for a present, non-empty string.
\<close>

definition search ::
  "Package list \<Rightarrow> string option \<Rightarrow> Language option \<Rightarrow> Category option \<Rightarrow> Package list" where
  "search packages query lang cat =
     (let results = packages;
          results = (case lang of Some l \<Rightarrow> filter (\<lambda>p. language p = l) results
                     | None \<Rightarrow> results);
          results = (case cat of Some c \<Rightarrow> filter (\<lambda>p. category p = c) results
                     | None \<Rightarrow> results)
      in case query of
           None \<Rightarrow> results
         | Some q \<Rightarrow>
             if q = [] then results
             else let terms = query_terms q
                  in map fst
                       (sort_by (\<lambda>a b. int (snd b) - int (snd a))
                          (filter (\<lambda>r. snd r > 0)
                             (map (\<lambda>p. (p, score_of terms p)) results))))"





section \<open>Package registry: reports\<close>

text \<open>The distinct languages of a list of packages, in first-seen order.\<close>

definition languages_of :: "Package list \<Rightarrow> string list" where
  "languages_of ps = new_Set (map (\<lambda>p. language_str (language p)) ps)"

subsection \<open>The coverage matrix\<close>

text \<open>
  The concept map of \<open>getCrossLanguageCoverage\<close>: each concept with the set of languages
  it is available in.
\<close>

definition conceptMap_step ::
  "(string \<times> string list) list \<Rightarrow> Package \<Rightarrow> (string \<times> string list) list" where
  "conceptMap_step m pkg =
     (let st = (case map_of m (crossLanguageId pkg) of Some st \<Rightarrow> st | None \<Rightarrow> []);
          st = set_add st (language_str (language pkg))
      in AList.update (crossLanguageId pkg) st m)"

definition conceptMap_of :: "Package list \<Rightarrow> (string \<times> string list) list" where
  "conceptMap_of packages = foldl conceptMap_step [] packages"

text \<open>
  \<open>conceptMap.get(c)!\<close> for a concept \<open>c\<close> that is a key of the map, as every concept
  the report iterates over is.
\<close>

definition langs_of :: "(string \<times> string list) list \<Rightarrow> string \<Rightarrow> string list" where
  "langs_of m c = (case map_of m c of Some st \<Rightarrow> st | None \<Rightarrow> [])"

definition coverage_languages :: "Package list \<Rightarrow> string list" where
  "coverage_languages packages = sort (languages_of packages)"

definition coverage_concepts :: "Package list \<Rightarrow> string list" where
  "coverage_concepts packages = sort (map fst (conceptMap_of packages))"

definition totalSlots :: "Package list \<Rightarrow> int" where
  "totalSlots packages =
     int (length (coverage_concepts packages)) * int (length (coverage_languages packages))"

definition gapCount :: "Package list \<Rightarrow> int" where
  "gapCount packages =
     (let languages = coverage_languages packages; m = conceptMap_of packages
      in foldl (\<lambda>g concept. g + (int (length languages) - int (length (langs_of m concept))))
           0 (coverage_concepts packages))"

text \<open>
  \<open>((1 - gapCount / totalSlots) * 100).toFixed(0)\<close> is arithmetic on doubles.  Its
  rendering for a non-zero divisor is left to the parameter \<open>toFixed0\<close>; for the divisor
  zero the quotient is \<open>NaN\<close> or infinite and the rendering is written out.
\<close>

definition coverage_percent :: "(int \<Rightarrow> int \<Rightarrow> string) \<Rightarrow> int \<Rightarrow> int \<Rightarrow> string" where
  "coverage_percent toFixed0 gap slots =
     (if slots = 0
      then (if gap = 0 then ''NaN'' else if gap > 0 then ''-Infinity'' else ''Infinity'')
      else toFixed0 gap slots)"

definition coverage_matrix :: "(int \<Rightarrow> int \<Rightarrow> string) \<Rightarrow> Package list \<Rightarrow> string" where
  "coverage_matrix toFixed0 packages =
     (let languages = coverage_languages packages;
          m = conceptMap_of packages;
          concepts = coverage_concepts packages;
          md = ''# Cross-Language Coverage Matrix'' @ nl @ nl;
          md = md @ ''| Concept | '' @ join '' | '' languages @ '' |'' @ nl;
          md = md @ ''|---------|'' @ join ''|'' (map (\<lambda>l. ''---'') languages) @ ''|'' @ nl;
          md = md @ concat (map (\<lambda>concept.
                 ''| '' @ concept @ '' | ''
                 @ join '' | '' (map (\<lambda>l. if l \<in> set (langs_of m concept) then ''yes'' else ''-'')
                                    languages)
                 @ '' |'' @ nl) concepts);
          md = md @ nl @ ''**'' @ show_nat (length concepts) @ '' concepts** across **''
                  @ show_nat (length languages) @ '' languages** - '';
          coverage = coverage_percent toFixed0 (gapCount packages) (totalSlots packages);
          md = md @ ''**'' @ coverage @ ''% coverage** (''
                  @ show_int (totalSlots packages - gapCount packages) @ ''/''
                  @ show_int (totalSlots packages) @ '' slots filled)'' @ nl;
          multiLang = filter (\<lambda>c. length (langs_of m c) > 1) concepts;
          md = (if length multiLang > 0
                then md @ nl @ ''## Multi-Language Concepts'' @ nl
                     @ concat (map (\<lambda>c. ''- **'' @ c @ ''**: '' @ join '', '' (langs_of m c) @ nl)
                                multiLang)
                else md);
          singleLang = filter (\<lambda>c. length (langs_of m c) = 1) concepts;
          md = (if length singleLang > 0
                then md @ nl @ ''## Single-Language Only (potential gaps)'' @ nl
                     @ concat (map (\<lambda>c. ''- **'' @ c @ ''**: '' @ join '', '' (langs_of m c)
                                         @ '' only'' @ nl) singleLang)
                else md)
      in md)"

definition getCrossLanguageCoverage :: "(int \<Rightarrow> int \<Rightarrow> string) \<Rightarrow> Package list \<Rightarrow> string" where
  "getCrossLanguageCoverage toFixed0 packages =
     (if length (coverage_concepts packages) = 0 then ''No packages available.''
      else coverage_matrix toFixed0 packages)"

subsection \<open>Reverse dependencies\<close>

text \<open>
  The loop of \<open>getReverseDependencies\<close> over the packages; its state is the list
  \<open>dependents\<close> of concepts with their languages and the list \<open>directDeps\<close>.
\<close>

definition dependents_step ::
  "string \<Rightarrow> (string \<times> string list) list \<Rightarrow> Package \<Rightarrow> (string \<times> string list) list" where
  "dependents_step cid dependents pkg =
     (if cid \<in> set (zkKitDependencies pkg)
      then (case map_of dependents (crossLanguageId pkg) of
              Some langs \<Rightarrow>
                if language_str (language pkg) \<notin> set langs
                then AList.update (crossLanguageId pkg) (langs @ [language_str (language pkg)])
                       dependents
                else dependents
            | None \<Rightarrow> dependents @ [(crossLanguageId pkg, [language_str (language pkg)])])
      else dependents)"

definition directDeps_step :: "string \<Rightarrow> string list \<Rightarrow> Package \<Rightarrow> string list" where
  "directDeps_step cid directDeps pkg =
     (if crossLanguageId pkg = cid then foldl set_add directDeps (zkKitDependencies pkg)
      else directDeps)"

text \<open>
  The collation of \<open>String.prototype.localeCompare\<close> depends on the locale of the host
  and is a parameter, \<open>localeCompare\<close>, of everything that sorts with it.
\<close>

definition getReverseDependencies ::
  "(string \<Rightarrow> string \<Rightarrow> int) \<Rightarrow> Package list \<Rightarrow> string \<Rightarrow> string" where
  "getReverseDependencies localeCompare packages cid =
     (let dependents = foldl (dependents_step cid) [] packages;
          directDeps = foldl (directDeps_step cid) [] packages;
          targetPkgs = filter (\<lambda>p. crossLanguageId p = cid) packages;
          targetLangs = languages_of targetPkgs;
          md = ''# Dependency Info: '' @ cid @ nl @ nl;
          md = md @ ''**Available in:** '' @ join '', '' targetLangs @ nl @ nl;
          md = (if length directDeps > 0
                then md @ ''## Depends On'' @ nl @ nl
                     @ concat (map (\<lambda>dep.
                         ''- **'' @ dep @ ''** (''
                         @ join '', '' (languages_of (filter (\<lambda>p. crossLanguageId p = dep) packages))
                         @ '')'' @ nl) (sort directDeps))
                     @ nl
                else md);
          md = (if length dependents > 0
                then md @ ''## Depended On By'' @ nl @ nl
                     @ concat (map (\<lambda>d. ''- **'' @ fst d @ ''** ('' @ join '', '' (snd d) @ '')'' @ nl)
                                (sort_by (\<lambda>a b. localeCompare (fst a) (fst b)) dependents))
                     @ nl
                     @ ''**'' @ show_nat (length dependents) @ '' package(s)** depend on '' @ cid
                     @ ''.'' @ nl
                else md @ ''No other ZK-Kit packages depend on '' @ cid @ ''.'' @ nl)
      in md)"

subsection \<open>The dependency graph\<close>

text \<open>
  The state of the first loop of \<open>getDependencyGraph\<close>: the maps \<open>dependsOn\<close> and
  \<open>dependedBy\<close> from concepts to sets of concepts, and the set \<open>allConcepts\<close>.
\<close>

record graph_state =
  dependsOn :: "(string \<times> string list) list"
  dependedBy :: "(string \<times> string list) list"
  allConcepts :: "string list"

text \<open>\<open>if (!m.has(k)) m.set(k, new Set())\<close> and \<open>m.get(k)!.add(v)\<close>\<close>

definition ensure_key :: "string \<Rightarrow> (string \<times> string list) list \<Rightarrow> (string \<times> string list) list" where
  "ensure_key k m = (if map_of m k = None then AList.update k [] m else m)"

definition add_to :: "string \<Rightarrow> string \<Rightarrow> (string \<times> string list) list \<Rightarrow> (string \<times> string list) list" where
  "add_to k v m = AList.update k (set_add (langs_of m k) v) m"

definition dep_step :: "string \<Rightarrow> graph_state \<Rightarrow> string \<Rightarrow> graph_state" where
  "dep_step cid g dep =
     g\<lparr> dependsOn := add_to cid dep (dependsOn g),
        dependedBy := add_to dep cid (ensure_key dep (dependedBy g)),
        allConcepts := set_add (allConcepts g) dep \<rparr>"

definition pkg_step :: "graph_state \<Rightarrow> Package \<Rightarrow> graph_state" where
  "pkg_step g pkg =
     (let cid = crossLanguageId pkg;
          g = g\<lparr> allConcepts := set_add (allConcepts g) cid,
                 dependsOn := ensure_key cid (dependsOn g) \<rparr>
      in foldl (dep_step cid) g (zkKitDependencies pkg))"

definition build_graph :: "Package list \<Rightarrow> graph_state" where
  "build_graph packages =
     foldl pkg_step \<lparr> dependsOn = [], dependedBy = [], allConcepts = [] \<rparr> packages"

text \<open>\<open>m.get(c)?.size ?? 0\<close>\<close>

definition size_at :: "(string \<times> string list) list \<Rightarrow> string \<Rightarrow> nat" where
  "size_at m c = (case map_of m c of Some st \<Rightarrow> length st | None \<Rightarrow> 0)"

text \<open>
  The classification loop over the sorted concepts, with the three arrays
  \<open>foundational\<close>, \<open>leaf\<close> and \<open>independent\<close> as its state.
\<close>

record classes =
  foundational :: "string list"
  leaf :: "string list"
  independent :: "string list"

definition classify_step :: "graph_state \<Rightarrow> classes \<Rightarrow> string \<Rightarrow> classes" where
  "classify_step g cl concept =
     (let deps = size_at (dependsOn g) concept;
          usedBy = size_at (dependedBy g) concept
      in if usedBy > 0 then cl\<lparr> foundational := foundational cl @ [concept] \<rparr>
         else if deps > 0 then cl\<lparr> leaf := leaf cl @ [concept] \<rparr>
         else cl\<lparr> independent := independent cl @ [concept] \<rparr>)"

definition classify :: "Package list \<Rightarrow> classes" where
  "classify packages =
     (let g = build_graph packages
      in foldl (classify_step g) \<lparr> foundational = [], leaf = [], independent = [] \<rparr>
           (sort (allConcepts g)))"

definition getDependencyGraph :: "Package list \<Rightarrow> string" where
  "getDependencyGraph packages =
     (if length packages = 0 then ''No packages available.''
      else
        let g = build_graph packages;
            cl = classify packages;
            md = ''# ZK-Kit Internal Dependency Graph'' @ nl @ nl;
            totalDeps = foldl (\<lambda>sum st. sum + length st) 0 (map snd (dependsOn g));
            md = md @ ''**'' @ show_nat (length (allConcepts g)) @ '' concepts**, **''
                    @ show_nat totalDeps @ '' internal dependencies**'' @ nl @ nl;
            md = (if length (foundational cl) > 0
                  then md @ ''## Foundational Packages'' @ nl @ nl
                       @ ''Depended on by other ZK-Kit packages:'' @ nl @ nl
                       @ concat (map (\<lambda>c.
                           ''- **'' @ c @ ''** (''
                           @ join '', '' (languages_of (filter (\<lambda>p. crossLanguageId p = c) packages))
                           @ ''): used by '' @ join '', '' (sort (langs_of (dependedBy g) c)) @ nl)
                           (foundational cl))
                       @ nl
                  else md);
            md = (if length (leaf cl) > 0
                  then md @ ''## Leaf Packages'' @ nl @ nl
                       @ ''Depend on other ZK-Kit packages but are not depended on:'' @ nl @ nl
                       @ concat (map (\<lambda>c.
                           ''- **'' @ c @ ''** (''
                           @ join '', '' (languages_of (filter (\<lambda>p. crossLanguageId p = c) packages))
                           @ ''): depends on '' @ join '', '' (sort (langs_of (dependsOn g) c)) @ nl)
                           (leaf cl))
                       @ nl
                  else md);
            md = (if length (independent cl) > 0
                  then md @ ''## Independent Packages'' @ nl @ nl
                       @ ''No internal ZK-Kit dependencies:'' @ nl @ nl
                       @ concat (map (\<lambda>c.
                           ''- **'' @ c @ ''** (''
                           @ join '', '' (languages_of (filter (\<lambda>p. crossLanguageId p = c) packages))
                           @ '')'' @ nl)
                           (independent cl))
                  else md)
        in md)"








section \<open>The dependency-graph tool\<close>

datatype ToolResult = TextResult string | ErrorResult string

definition EMPTY_REGISTRY_HINT :: string where
  "EMPTY_REGISTRY_HINT = '' The package registry is empty, this usually means GitHub API requests failed at startup. Check server logs and ensure GITHUB_TOKEN is set for higher rate limits.''"

datatype resolved = Pkg Package | Result ToolResult

definition resolvePackage :: "Package list \<Rightarrow> string \<Rightarrow> resolved" where
  "resolvePackage packages nm =
     (case getByName packages nm of
        Some pkg \<Rightarrow> Pkg pkg
      | None \<Rightarrow>
          if length packages = 0
          then Result (TextResult (''Package '' @ dquote @ nm @ dquote @ '' not found.''
                                   @ EMPTY_REGISTRY_HINT))
          else let suggestions = suggest packages nm 5
               in Result (TextResult
                    (if length suggestions \<noteq> 0
                     then ''Package '' @ dquote @ nm @ dquote @ '' not found. Did you mean:'' @ nl
                          @ join nl (map (\<lambda>s. ''- '' @ name s) suggestions)
                     else ''Package '' @ dquote @ nm @ dquote
                          @ '' not found. Use list_packages to see available packages.'')))"

text \<open>
  The handler of the tool \<open>get_dependency_graph\<close>; \<open>nm\<close> is its optional argument
  \<open>name\<close>.  Nothing it calls throws, so its \<open>catch\<close> branch is never taken.
\<close>

definition get_dependency_graph_tool ::
  "(string \<Rightarrow> string \<Rightarrow> int) \<Rightarrow> Package list \<Rightarrow> string option \<Rightarrow> ToolResult" where
  "get_dependency_graph_tool localeCompare packages nm =
     (if length packages = 0
      then TextResult (''No packages available.'' @ EMPTY_REGISTRY_HINT)
      else case nm of
             None \<Rightarrow> TextResult (getDependencyGraph packages)
           | Some n \<Rightarrow>
               if n = [] then TextResult (getDependencyGraph packages)
               else (case resolvePackage packages n of
                       Result r \<Rightarrow> r
                     | Pkg pkg \<Rightarrow>
                         TextResult (getReverseDependencies localeCompare packages
                                       (crossLanguageId pkg))))"

section \<open>Discovery\<close>

text \<open>
  The two collaborators are asynchronous functions.  The outcome of a call is a value of
  \<open>string + 'a\<close>: \<open>Inl reason\<close> when the promise rejects, \<open>Inr value\<close> when it fulfils.
  Logging is the only other effect of discovery and is left out.
\<close>

record ManifestInfo =
  m_description :: string
  m_version :: "string option"
  m_zkKitDependencies :: "string list option"

type_synonym fetchDirectoryListing_t = "string \<Rightarrow> string \<Rightarrow> string + string list"

type_synonym fetchManifestInfo_t =
  "string \<Rightarrow> string \<Rightarrow> string \<Rightarrow> string \<Rightarrow> Language \<Rightarrow> string + ManifestInfo"

datatype 'a settled = Fulfilled 'a | Rejected string

fun settle :: "string + 'a \<Rightarrow> 'a settled" where
  "settle (Inl reason) = Rejected reason"
| "settle (Inr v) = Fulfilled v"

text \<open>
  \<open>Promise.allSettled\<close> keeps one slot per task and writes the outcome of task \<open>i\<close> into
  slot \<open>i\<close> when the task completes.  The order in which the tasks complete is the list
  \<open>order\<close> of their indices.  The combined promise fulfils, with the slots, once every
  slot is written, and stays pending (\<open>None\<close>) otherwise; it never rejects.
\<close>

fun settle_in_order ::
  "'a settled option list \<Rightarrow> nat list \<Rightarrow> (string + 'a) list \<Rightarrow> 'a settled option list" where
  "settle_in_order slots [] tasks = slots"
| "settle_in_order slots (i # order) tasks =
     settle_in_order
       (if i < length tasks then slots[i := Some (settle (tasks ! i))] else slots) order tasks"

definition allSettled :: "nat list \<Rightarrow> (string + 'a) list \<Rightarrow> 'a settled list option" where
  "allSettled order tasks =
     those (settle_in_order (replicate (length tasks) None) order tasks)"





definition dir_task :: "fetchManifestInfo_t \<Rightarrow> RepoConfig \<Rightarrow> string \<Rightarrow> string + Package" where
  "dir_task fetchManifestInfo cfg dir =
     (let nm = deriveName dir (repo_language cfg)
      in case fetchManifestInfo (slug cfg) (branch cfg) (packagePath cfg) dir (repo_language cfg) of
           Inl reason \<Rightarrow> Inl reason
         | Inr manifest \<Rightarrow>
             Inr \<lparr> name = nm,
                   dirName = dir,
                   language = repo_language cfg,
                   category = inferCategory dir,
                   repo = ''https://github.com/'' @ slug cfg @ ''/tree/'' @ branch cfg @ ''/''
                          @ packagePath cfg @ ''/'' @ dir,
                   description = m_description manifest,
                   installCommand = deriveInstallCommand nm dir (repo_language cfg) (slug cfg),
                   crossLanguageId = deriveCrossLanguageId dir,
                   version = m_version manifest,
                   zkKitDependencies = (case m_zkKitDependencies manifest of
                                          Some deps \<Rightarrow> deps | None \<Rightarrow> []) \<rparr>)"




text \<open>
  The packages that survive discovery, as the specification words them: for each repository
  whose listing succeeds, one package for each listed directory whose manifest fetch
  succeeds, in the order of the repositories and of the listings.
\<close>

definition surviving_of_repo ::
  "fetchDirectoryListing_t \<Rightarrow> fetchManifestInfo_t \<Rightarrow> RepoConfig \<Rightarrow> Package list" where
  "surviving_of_repo fetchDirectoryListing fetchManifestInfo cfg =
     (case fetchDirectoryListing (slug cfg) (packagePath cfg) of
        Inl reason \<Rightarrow> []
      | Inr dirs \<Rightarrow>
          concat (map (\<lambda>dir. case dir_task fetchManifestInfo cfg dir of
                               Inl reason \<Rightarrow> [] | Inr pkg \<Rightarrow> [pkg]) dirs))"




section \<open>A registry to test on\<close>

text \<open>The synthetic registry of the repository's test-suite.\<close>

definition makePackage :: Package where
  "makePackage = \<lparr> name = ''@zk-kit/lean-imt'', dirName = ''lean-imt'', language = TypeScript,
     category = MerkleTrees,
     repo = ''https://github.com/zk-kit/zk-kit/tree/main/packages/lean-imt'',
     description = ''Lean Incremental Merkle Tree implementation'',
     installCommand = ''npm i @zk-kit/lean-imt'', crossLanguageId = ''lean-imt'',
     version = None, zkKitDependencies = [] \<rparr>"

definition SYNTHETIC_PACKAGES :: "Package list" where
  "SYNTHETIC_PACKAGES =
    [ makePackage\<lparr> version := Some ''1.2.3'' \<rparr>,
      makePackage\<lparr> name := ''@zk-kit/poseidon-lite'', dirName := ''poseidon-lite'',
        category := Cryptography, description := ''Lightweight Poseidon hash'',
        installCommand := ''npm i @zk-kit/poseidon-lite'', crossLanguageId := ''poseidon-lite'' \<rparr>,
      makePackage\<lparr> name := ''@zk-kit/ecdh'', dirName := ''ecdh'',
        category := Cryptography, description := ''ECDH shared secret derivation'',
        installCommand := ''npm i @zk-kit/ecdh'', crossLanguageId := ''ecdh'' \<rparr>,
      makePackage\<lparr> name := ''@zk-kit/lean-imt.sol'', dirName := ''lean-imt'', language := Solidity,
        repo := ''https://github.com/zk-kit/zk-kit.solidity/tree/main/packages/lean-imt'',
        description := ''Lean IMT in Solidity'',
        installCommand := ''npm i @zk-kit/lean-imt.sol'', crossLanguageId := ''lean-imt'' \<rparr>,
      makePackage\<lparr> name := ''zk-kit-lean-imt'', dirName := ''lean-imt'', language := Rust,
        repo := ''https://github.com/zk-kit/zk-kit.rust/tree/main/crates/lean-imt'',
        description := ''Lean IMT in Rust'',
        installCommand := ''cargo add zk-kit-lean-imt'', crossLanguageId := ''lean-imt'' \<rparr>,
      makePackage\<lparr> name := ''@zk-kit/excubiae'', dirName := ''excubiae'', language := Solidity,
        category := AccessControl,
        repo := ''https://github.com/zk-kit/zk-kit.solidity/tree/main/packages/excubiae'',
        description := ''Access control for ZK verification'',
        installCommand := ''npm i @zk-kit/excubiae'', crossLanguageId := ''excubiae'' \<rparr> ]"

text \<open>A chain of three concepts: \<open>a\<close> depends on \<open>b\<close>, and \<open>b\<close> on \<open>c\<close>.\<close>

definition chain :: "Package list" where
  "chain =
    [ makePackage\<lparr> name := ''@zk-kit/a'', dirName := ''a'', crossLanguageId := ''a'',
        zkKitDependencies := [''b''] \<rparr>,
      makePackage\<lparr> name := ''@zk-kit/b'', dirName := ''b'', crossLanguageId := ''b'',
        zkKitDependencies := [''c''] \<rparr>,
      makePackage\<lparr> name := ''@zk-kit/c'', dirName := ''c'', crossLanguageId := ''c'' \<rparr> ]"







section \<open>Properties of the string operations\<close>

lemma lower_char_Char:
  "lower_char (Char b0 b1 b2 b3 b4 b5 b6 b7) =
     (if b6 \<and> \<not> b5 \<and> \<not> b7 \<and> (b0 \<or> b1 \<or> b2 \<or> b3 \<or> b4) \<and> \<not> (b4 \<and> b3 \<and> (b2 \<or> (b1 \<and> b0)))
      then Char b0 b1 b2 b3 b4 True b6 b7 else Char b0 b1 b2 b3 b4 b5 b6 b7)"
  by (cases b7; cases b6; cases b5; cases b4; cases b3; cases b2; cases b1; cases b0)
     (simp_all add: lower_char_def less_eq_char_def char_of_def bit_Suc_0_iff)

lemma upper_char_Char:
  "upper_char (Char b0 b1 b2 b3 b4 b5 b6 b7) =
     (if b6 \<and> b5 \<and> \<not> b7 \<and> (b0 \<or> b1 \<or> b2 \<or> b3 \<or> b4) \<and> \<not> (b4 \<and> b3 \<and> (b2 \<or> (b1 \<and> b0)))
      then Char b0 b1 b2 b3 b4 False b6 b7 else Char b0 b1 b2 b3 b4 b5 b6 b7)"
  by (cases b7; cases b6; cases b5; cases b4; cases b3; cases b2; cases b1; cases b0)
     (simp_all add: upper_char_def less_eq_char_def char_of_def bit_Suc_0_iff)

lemmas str_eval = toLowerCase_def toUpperCase_def lower_char_Char upper_char_Char
  remove_prefix_def replace_char_def





section \<open>Name resolution\<close>





















section \<open>Search\<close>

lemma includes_str_sublist: "includes_str s t = sublist t s"
  by (induction s) (simp_all add: sublist_Cons_right)


















subsection \<open>Queries of white space\<close>







lemma query_terms_imt: "query_terms '' IMT  sol'' = [''imt'', ''sol'']"
  by (simp add: query_terms_def split_ws_def is_space_def str_eval)

lemma search_imt_example:
  "search SYNTHETIC_PACKAGES (Some '' IMT  sol'') None None
     = [SYNTHETIC_PACKAGES ! 3]"
  by (simp add: search_def query_terms_imt Let_def score_of_def SYNTHETIC_PACKAGES_def
        makePackage_def str_eval sort_by_def)

lemma search_imt_example2:
  "search SYNTHETIC_PACKAGES (Some ''imt'') None None
     = [SYNTHETIC_PACKAGES ! 3, SYNTHETIC_PACKAGES ! 4, SYNTHETIC_PACKAGES ! 0]"
  by (simp add: search_def query_terms_def split_ws_def is_space_def Let_def score_of_def SYNTHETIC_PACKAGES_def
        makePackage_def str_eval sort_by_def)




section \<open>Naming and categorisation\<close>








subsection \<open>The category patterns\<close>

lemma occurs_at_split:
  "occurs_at (u @ v) s j = (occurs_at u s j \<and> occurs_at v s (j + length u))"
proof -
  have t: "take (length u + length v) (drop j s)
      = take (length u) (drop j s) @ take (length v) (drop (j + length u) s)"
    by (simp add: take_add add.commute)
  show ?thesis
  proof (cases "length (take (length u) (drop j s)) = length u")
    case True
    then show ?thesis unfolding occurs_at_def using t by auto
  next
    case False
    then have short: "length (drop j s) < length u" by auto
    then have "take (length u + length v) (drop j s) \<noteq> u @ v"
      by (metis length_append length_take min.absorb2 nat_less_le not_add_less1 order.strict_trans1 min_def trans_le_add1 linorder_not_less)
    moreover have "take (length u) (drop j s) \<noteq> u" using False by auto
    ultimately show ?thesis by (simp add: occurs_at_def)
  qed
qed

lemma occurs_dash: "occurs_at ''-'' s i = (i < length s \<and> s ! i = CHR ''-'')"
proof (cases "i < length s")
  case True
  then have "drop i s = s ! i # drop (Suc i) s" by (simp add: Cons_nth_drop_Suc)
  then show ?thesis using True by (simp add: occurs_at_def)
next
  case False
  then show ?thesis by (simp add: occurs_at_def)
qed

lemma occurs_at_bound: "w \<noteq> [] \<Longrightarrow> occurs_at w s j \<Longrightarrow> j + length w \<le> length s"
proof -
  assume w: "w \<noteq> []" and o: "occurs_at w s j"
  then have "length (take (length w) (drop j s)) = length w" by (simp add: occurs_at_def)
  then show ?thesis using w by (cases "j \<le> length s") (auto simp: min_def split: if_splits)
qed

lemma list_ex_upto: "list_ex P [0..<Suc n] = (\<exists>i\<le>n. P i)"
  by (simp only: list_ex_iff set_upt) (auto simp: less_Suc_eq_le)

lemma rmatch_Lit: "e \<in> set (rmatch (Lit w) s j) = (occurs_at w s j \<and> e = j + length w)"
  by (auto simp: occurs_at_def)

lemma rmatch_alts:
  "rs \<noteq> [] \<Longrightarrow> set (rmatch (alts rs) s j) = (\<Union>r\<in>set rs. set (rmatch r s j))"
  by (induction rs rule: alts.induct) auto

lemma rmatch_anchored:
  "(rmatch (anchored ws) s i \<noteq> []) =
     (\<exists>j e. ((i = 0 \<and> j = 0) \<or> (occurs_at ''-'' s i \<and> j = Suc i))
         \<and> e \<in> set (rmatch (alts ws) s j)
         \<and> (occurs_at ''-'' s e \<or> e = length s))"
  unfolding anchored_def occurs_at_def
  by (auto split: if_splits) 

lemma regex_test_anchored:
  "regex_test (anchored ws) s =
     (\<exists>j e. (j = 0 \<or> (0 < j \<and> j \<le> length s \<and> s ! (j - 1) = CHR ''-''))
         \<and> e \<in> set (rmatch (alts ws) s j)
         \<and> ((e < length s \<and> s ! e = CHR ''-'') \<or> e = length s))"
  (is "?L = ?R")
proof
  assume ?L
  then obtain i where i: "i \<le> length s" "rmatch (anchored ws) s i \<noteq> []"
    unfolding regex_test_def list_ex_upto by blast
  then obtain j e where je: "(i = 0 \<and> j = 0) \<or> (occurs_at ''-'' s i \<and> j = Suc i)"
    "e \<in> set (rmatch (alts ws) s j)" "occurs_at ''-'' s e \<or> e = length s"
    unfolding rmatch_anchored by blast
  from je(1) have "j = 0 \<or> (0 < j \<and> j \<le> length s \<and> s ! (j - 1) = CHR ''-'')"
    by (auto simp: occurs_dash)
  with je(2,3) show ?R by (auto simp: occurs_dash)
next
  assume ?R
  then obtain j e where je: "j = 0 \<or> (0 < j \<and> j \<le> length s \<and> s ! (j - 1) = CHR ''-'')"
    "e \<in> set (rmatch (alts ws) s j)" "(e < length s \<and> s ! e = CHR ''-'') \<or> e = length s"
    by blast
  let ?i = "j - 1"
  have "(?i = 0 \<and> j = 0) \<or> (occurs_at ''-'' s ?i \<and> j = Suc ?i)"
    using je(1) by (auto simp: occurs_dash)
  then have "rmatch (anchored ws) s ?i \<noteq> []"
    unfolding rmatch_anchored using je(2,3) by (auto simp: occurs_dash)
  moreover have "?i \<le> length s" using je(1) by auto
  ultimately show ?L unfolding regex_test_def list_ex_upto by blast
qed

lemma delimited_iff:
  "w \<noteq> [] \<Longrightarrow> delimited w s =
     (\<exists>j. (j = 0 \<or> (0 < j \<and> j \<le> length s \<and> s ! (j - 1) = CHR ''-''))
         \<and> occurs_at w s j
         \<and> ((j + length w < length s \<and> s ! (j + length w) = CHR ''-'') \<or> j + length w = length s))"
  (is "_ \<Longrightarrow> ?L = ?R")
proof
  assume w: "w \<noteq> []" and ?L
  then obtain j where "j \<le> length s" "delimited_at w s j"
    unfolding delimited_def list_ex_upto by blast
  then show ?R unfolding delimited_at_def occurs_at_def
    by (intro exI[of _ j]) (auto)
next
  assume w: "w \<noteq> []" and ?R
  then obtain j where j: "j = 0 \<or> (0 < j \<and> j \<le> length s \<and> s ! (j - 1) = CHR ''-'')"
    "occurs_at w s j"
    "(j + length w < length s \<and> s ! (j + length w) = CHR ''-'') \<or> j + length w = length s"
    by blast
  have b: "j + length w \<le> length s" using j(3) by auto
  then have "delimited_at w s j" using j unfolding delimited_at_def occurs_at_def by auto
  moreover have "j \<le> length s" using b by simp
  ultimately show ?L unfolding delimited_def list_ex_upto by blast
qed

lemma regex_test_keywords:
  assumes ne: "ws \<noteq> []" and w: "\<forall>w\<in>set ws. w \<noteq> []"
    and m: "\<And>j e. e \<in> set (rmatch (alts rs) s j) = (\<exists>w\<in>set ws. occurs_at w s j \<and> e = j + length w)"
  shows "regex_test (anchored rs) s = list_ex (\<lambda>w. delimited w s) ws"
proof -
  have "regex_test (anchored rs) s =
     (\<exists>w\<in>set ws. \<exists>j. (j = 0 \<or> (0 < j \<and> j \<le> length s \<and> s ! (j - 1) = CHR ''-''))
         \<and> occurs_at w s j
         \<and> ((j + length w < length s \<and> s ! (j + length w) = CHR ''-'') \<or> j + length w = length s))"
    unfolding regex_test_anchored m by blast
  also have "\<dots> = (\<exists>w\<in>set ws. delimited w s)"
    using w by (auto simp: delimited_iff)
  finally show ?thesis by (simp add: list_ex_iff)
qed

lemma alts_Lits:
  "ws \<noteq> [] \<Longrightarrow> e \<in> set (rmatch (alts (map Lit ws)) s j) = (\<exists>w\<in>set ws. occurs_at w s j \<and> e = j + length w)"
  by (auto simp: rmatch_alts occurs_at_def)

lemma baby_jubjub:
  "e \<in> set (rmatch (Seq (Lit ''baby'') (Seq (Opt (Lit ''-'')) (Lit ''jubjub''))) s j)
    = ((occurs_at ''baby-jubjub'' s j \<and> e = j + length ''baby-jubjub'')
       \<or> (occurs_at ''babyjubjub'' s j \<and> e = j + length ''babyjubjub''))"
proof -
  have a: "occurs_at ''baby-jubjub'' s j
      = (occurs_at ''baby'' s j \<and> occurs_at ''-'' s (j + length ''baby'')
         \<and> occurs_at ''jubjub'' s (j + length ''baby'' + length ''-''))"
    using occurs_at_split[of "''baby''" "''-jubjub''" s j]
      occurs_at_split[of "''-''" "''jubjub''" s "j + length ''baby''"]
    by simp
  have b: "occurs_at ''babyjubjub'' s j
      = (occurs_at ''baby'' s j \<and> occurs_at ''jubjub'' s (j + length ''baby''))"
    using occurs_at_split[of "''baby''" "''jubjub''" s j] by simp
  show ?thesis unfolding a b
    by (auto simp: occurs_at_def)
qed


lemma first_rule_index:
  "k < length rules \<Longrightarrow> regex_test (fst (rules ! k)) s \<Longrightarrow>
   \<forall>j<k. \<not> regex_test (fst (rules ! j)) s \<Longrightarrow> first_rule rules s = snd (rules ! k)"
proof (induction rules arbitrary: k)
  case Nil
  then show ?case by simp
next
  case (Cons r rules)
  obtain p c where r: "r = (p, c)" by (cases r)
  show ?case
  proof (cases k)
    case 0
    with Cons.prems r show ?thesis by simp
  next
    case (Suc k')
    with Cons.prems have "\<not> regex_test p s" using r by auto
    moreover have "first_rule rules s = snd (rules ! k')"
      using Cons.prems Suc by (intro Cons.IH) auto
    ultimately show ?thesis using r Suc by simp
  qed
qed

lemma first_rule_none:
  "\<forall>k<length rules. \<not> regex_test (fst (rules ! k)) s \<Longrightarrow> first_rule rules s = Other"
proof (induction rules)
  case Nil
  then show ?case by simp
next
  case (Cons r rules)
  obtain p c where r: "r = (p, c)" by (cases r)
  from Cons.prems have "\<not> regex_test p s" using r by auto
  moreover have "\<forall>k<length rules. \<not> regex_test (fst (rules ! k)) s"
    using Cons.prems by auto
  ultimately show ?case using Cons.IH r by simp
qed

lemma regex_test_Lits:
  assumes "ws \<noteq> []" "\<forall>w\<in>set ws. w \<noteq> []"
  shows "regex_test (anchored (map Lit ws)) s = rule_matches ws s"
  unfolding rule_matches_def
  by (rule regex_test_keywords[OF assms]) (rule alts_Lits[OF assms(1)])

lemma rule0:
  "regex_test (anchored [Lit ''imt'', Lit ''merkle'', Lit ''smt'', Lit ''pmt'']) s
     = rule_matches [''imt'', ''merkle'', ''smt'', ''pmt''] s"
  using regex_test_Lits[of "[''imt'', ''merkle'', ''smt'', ''pmt'']" s] by simp

lemma rule1:
  "regex_test (anchored [Lit ''eddsa'', Lit ''ecdh'', Lit ''poseidon'',
                 Seq (Lit ''baby'') (Seq (Opt (Lit ''-'')) (Lit ''jubjub''))]) s
     = rule_matches [''eddsa'', ''ecdh'', ''poseidon'', ''baby-jubjub'', ''babyjubjub''] s"
  unfolding rule_matches_def
proof (rule regex_test_keywords)
  fix j e
  let ?baby = "Seq (Lit ''baby'') (Seq (Opt (Lit ''-'')) (Lit ''jubjub''))"
  have "e \<in> set (rmatch (alts [Lit ''eddsa'', Lit ''ecdh'', Lit ''poseidon'', ?baby]) s j)
      = (e \<in> set (rmatch (Lit ''eddsa'') s j) \<or> e \<in> set (rmatch (Lit ''ecdh'') s j)
         \<or> e \<in> set (rmatch (Lit ''poseidon'') s j) \<or> e \<in> set (rmatch ?baby s j))"
    by (simp only: alts.simps rmatch.simps(4) set_append Un_iff)
  also have "\<dots> = (\<exists>w\<in>set [''eddsa'', ''ecdh'', ''poseidon'', ''baby-jubjub'', ''babyjubjub''].
           occurs_at w s j \<and> e = j + length w)"
    unfolding rmatch_Lit baby_jubjub by simp
  finally show "e \<in> set (rmatch (alts [Lit ''eddsa'', Lit ''ecdh'', Lit ''poseidon'', ?baby]) s j)
      = (\<exists>w\<in>set [''eddsa'', ''ecdh'', ''poseidon'', ''baby-jubjub'', ''babyjubjub''].
           occurs_at w s j \<and> e = j + length w)" .
qed simp_all

lemma rule2: "regex_test (anchored [Lit ''excubiae'']) s = rule_matches [''excubiae''] s"
  using regex_test_Lits[of "[''excubiae'']" s] by simp

lemma rule3:
  "regex_test (anchored [Lit ''semaphore'', Lit ''rln'', Lit ''identity'']) s
     = rule_matches [''semaphore'', ''rln'', ''identity''] s"
  using regex_test_Lits[of "[''semaphore'', ''rln'', ''identity'']" s] by simp

lemma rule4:
  "regex_test (anchored [Lit ''utils'', Lit ''math'']) s = rule_matches [''utils'', ''math''] s"
  using regex_test_Lits[of "[''utils'', ''math'']" s] by simp

lemma less5: "(k::nat) < 5 \<Longrightarrow> k = 0 \<or> k = 1 \<or> k = 2 \<or> k = 3 \<or> k = 4"
  by linarith

lemma rules_nth:
  "CATEGORY_RULES ! 0 = (anchored [Lit ''imt'', Lit ''merkle'', Lit ''smt'', Lit ''pmt''], MerkleTrees)"
  "CATEGORY_RULES ! 1 = (anchored [Lit ''eddsa'', Lit ''ecdh'', Lit ''poseidon'',
                 Seq (Lit ''baby'') (Seq (Opt (Lit ''-'')) (Lit ''jubjub''))], Cryptography)"
  "CATEGORY_RULES ! 2 = (anchored [Lit ''excubiae''], AccessControl)"
  "CATEGORY_RULES ! 3 = (anchored [Lit ''semaphore'', Lit ''rln'', Lit ''identity''], Identity)"
  "CATEGORY_RULES ! 4 = (anchored [Lit ''utils'', Lit ''math''], Math)"
  by (simp_all add: CATEGORY_RULES_def eval_nat_numeral)

lemma keywords_nth:
  "rule_keywords ! 0 = ([''imt'', ''merkle'', ''smt'', ''pmt''], MerkleTrees)"
  "rule_keywords ! 1 = ([''eddsa'', ''ecdh'', ''poseidon'', ''baby-jubjub'', ''babyjubjub''], Cryptography)"
  "rule_keywords ! 2 = ([''excubiae''], AccessControl)"
  "rule_keywords ! 3 = ([''semaphore'', ''rln'', ''identity''], Identity)"
  "rule_keywords ! 4 = ([''utils'', ''math''], Math)"
  by (simp_all add: rule_keywords_def eval_nat_numeral)

lemma rules_refine:
  assumes "k < 5"
  shows "regex_test (fst (CATEGORY_RULES ! k)) s = rule_matches (fst (rule_keywords ! k)) s
       \<and> snd (CATEGORY_RULES ! k) = snd (rule_keywords ! k)"
proof -
  consider "k = 0" | "k = 1" | "k = 2" | "k = 3" | "k = 4" using less5[OF assms] by blast
  then show ?thesis
  proof cases
    case 1 then show ?thesis by (simp only: rules_nth keywords_nth fst_conv snd_conv rule0)
  next
    case 2 then show ?thesis by (simp only: rules_nth keywords_nth fst_conv snd_conv rule1)
  next
    case 3 then show ?thesis by (simp only: rules_nth keywords_nth fst_conv snd_conv rule2)
  next
    case 4 then show ?thesis by (simp only: rules_nth keywords_nth fst_conv snd_conv rule3)
  next
    case 5 then show ?thesis by (simp only: rules_nth keywords_nth fst_conv snd_conv rule4)
  qed
qed

lemma CATEGORY_RULES_length: "length CATEGORY_RULES = 5" "length rule_keywords = 5"
  by (simp_all add: CATEGORY_RULES_def rule_keywords_def)

lemma inferCategory_index:
  assumes "k < 5" "rule_matches (fst (rule_keywords ! k)) s"
    "\<forall>j<k. \<not> rule_matches (fst (rule_keywords ! j)) s"
  shows "inferCategory s = snd (rule_keywords ! k)"
proof -
  have "first_rule CATEGORY_RULES s = snd (CATEGORY_RULES ! k)"
    using assms rules_refine[of _ s]
    by (intro first_rule_index) (auto simp: CATEGORY_RULES_length)
  then show ?thesis using rules_refine[OF assms(1), of s] by (simp add: inferCategory_def)
qed

lemma inferCategory_none:
  assumes "\<forall>k<5. \<not> rule_matches (fst (rule_keywords ! k)) s"
  shows "inferCategory s = Other"
  unfolding inferCategory_def
  using assms rules_refine[of _ s]
  by (intro first_rule_none) (auto simp: CATEGORY_RULES_length)

lemma rule_categories:
  "map snd rule_keywords = [MerkleTrees, Cryptography, AccessControl, Identity, Math]"
  by (simp add: rule_keywords_def)

text \<open>
  Claim C6.  Each of the five patterns matches exactly when a keyword of its rule occurs
  as a whole token, delimited by the start or end of the string or by hyphens; the rules
  are, in order, those of merkle-trees, cryptography, access-control, identity and math.
  A directory name that no rule matches, in particular one that has keywords only inside
  larger tokens, is in the category \<open>other\<close>; otherwise the category is that of the first
  rule that matches, so that of the earlier rule when two rules match.
\<close>

theorem inferCategory_first_match:
  "(\<forall>k<5. regex_test (fst (CATEGORY_RULES ! k)) dir = rule_matches (fst (rule_keywords ! k)) dir
          \<and> snd (CATEGORY_RULES ! k) = snd (rule_keywords ! k))
   \<and> ((\<forall>k<5. \<not> rule_matches (fst (rule_keywords ! k)) dir) \<longrightarrow> inferCategory dir = Other)
   \<and> (\<forall>k<5. rule_matches (fst (rule_keywords ! k)) dir
          \<and> (\<forall>j<k. \<not> rule_matches (fst (rule_keywords ! j)) dir)
          \<longrightarrow> inferCategory dir = snd (rule_keywords ! k))
   \<and> (\<forall>i j. i < j \<and> j < 5 \<and> rule_matches (fst (rule_keywords ! i)) dir
          \<and> rule_matches (fst (rule_keywords ! j)) dir
          \<and> (\<forall>k<5. rule_matches (fst (rule_keywords ! k)) dir \<longrightarrow> k = i \<or> k = j)
          \<longrightarrow> inferCategory dir = snd (rule_keywords ! i)
              \<and> inferCategory dir \<noteq> snd (rule_keywords ! j))
   \<and> map snd rule_keywords = [MerkleTrees, Cryptography, AccessControl, Identity, Math]"
proof -
  have a: "\<forall>k<5. regex_test (fst (CATEGORY_RULES ! k)) dir = rule_matches (fst (rule_keywords ! k)) dir
          \<and> snd (CATEGORY_RULES ! k) = snd (rule_keywords ! k)"
    using rules_refine by blast
  have b: "(\<forall>k<5. \<not> rule_matches (fst (rule_keywords ! k)) dir) \<longrightarrow> inferCategory dir = Other"
    using inferCategory_none by blast
  have c: "\<forall>k<5. rule_matches (fst (rule_keywords ! k)) dir
          \<and> (\<forall>j<k. \<not> rule_matches (fst (rule_keywords ! j)) dir)
          \<longrightarrow> inferCategory dir = snd (rule_keywords ! k)"
    using inferCategory_index by blast
  have d: "\<forall>i j. i < j \<and> j < 5 \<and> rule_matches (fst (rule_keywords ! i)) dir
          \<and> rule_matches (fst (rule_keywords ! j)) dir
          \<and> (\<forall>k<5. rule_matches (fst (rule_keywords ! k)) dir \<longrightarrow> k = i \<or> k = j)
          \<longrightarrow> inferCategory dir = snd (rule_keywords ! i)
              \<and> inferCategory dir \<noteq> snd (rule_keywords ! j)"
  proof (intro allI impI, elim conjE)
    fix i j
    assume ij: "i < j" "j < 5" and mi: "rule_matches (fst (rule_keywords ! i)) dir"
      and only: "\<forall>k<5. rule_matches (fst (rule_keywords ! k)) dir \<longrightarrow> k = i \<or> k = j"
    have i5: "i < 5" using ij by simp
    have "\<forall>k<i. \<not> rule_matches (fst (rule_keywords ! k)) dir"
    proof (intro allI impI)
      fix k assume "k < i"
      then have "k < 5" "k \<noteq> i" "k \<noteq> j" using ij by simp_all
      with only show "\<not> rule_matches (fst (rule_keywords ! k)) dir" by blast
    qed
    then have e: "inferCategory dir = snd (rule_keywords ! i)"
      using inferCategory_index[OF i5 mi] by simp
    have "distinct (map snd rule_keywords)" by (simp add: rule_categories)
    then have "snd (rule_keywords ! i) \<noteq> snd (rule_keywords ! j)"
      using ij i5 by (simp add: distinct_conv_nth CATEGORY_RULES_length del: distinct_map)
    with e show "inferCategory dir = snd (rule_keywords ! i)
              \<and> inferCategory dir \<noteq> snd (rule_keywords ! j)" by simp
  qed
  show ?thesis using a b c d rule_categories by blast
qed


lemmas delim_eval = rule_matches_def delimited_def delimited_at_def rule_keywords_def

lemma none_commitment: "\<forall>k<5. \<not> rule_matches (fst (rule_keywords ! k)) ''commitment''"
  by (auto dest!: less5 simp: delim_eval)

lemma none_multimath: "\<forall>k<5. \<not> rule_matches (fst (rule_keywords ! k)) ''multimath''"
  by (auto dest!: less5 simp: delim_eval)

lemma m_imt_eddsa:
  "rule_matches (fst (rule_keywords ! 0)) ''eddsa-imt''"
  "rule_matches (fst (rule_keywords ! 1)) ''eddsa-imt''"
  "\<forall>k<5. rule_matches (fst (rule_keywords ! k)) ''eddsa-imt'' \<longrightarrow> k = 0 \<or> k = 1"
  by (auto dest!: less5 simp: delim_eval)

theorem inferCategory_first_match_witness:
  "inferCategory ''commitment'' = Other
   \<and> includes_str ''multimath'' ''math'' \<and> inferCategory ''multimath'' = Other
   \<and> inferCategory ''eddsa-imt'' = MerkleTrees
   \<and> inferCategory ''eddsa-imt'' \<noteq> Cryptography"
proof -
  note T = inferCategory_first_match
  have a: "inferCategory ''commitment'' = Other"
    using T[of "''commitment''", THEN conjunct2, THEN conjunct1] none_commitment by blast
  have b: "inferCategory ''multimath'' = Other"
    using T[of "''multimath''", THEN conjunct2, THEN conjunct1] none_multimath by blast
  have "(0::nat) < 1 \<and> (1::nat) < 5 \<and> rule_matches (fst (rule_keywords ! 0)) ''eddsa-imt''
          \<and> rule_matches (fst (rule_keywords ! 1)) ''eddsa-imt''
          \<and> (\<forall>k<5. rule_matches (fst (rule_keywords ! k)) ''eddsa-imt'' \<longrightarrow> k = 0 \<or> k = 1)"
    using m_imt_eddsa by simp
  then have c: "inferCategory ''eddsa-imt'' = snd (rule_keywords ! 0)
              \<and> inferCategory ''eddsa-imt'' \<noteq> snd (rule_keywords ! 1)"
    using T[of "''eddsa-imt''", THEN conjunct2, THEN conjunct2, THEN conjunct2, THEN conjunct1,
        THEN spec, THEN spec, THEN mp, of 0 1] by blast
  have d: "includes_str ''multimath'' ''math''" by simp
  show ?thesis using a b c d by (simp add: keywords_nth)
qed


section \<open>The coverage matrix of the empty registry\<close>

lemma set_set_add: "set (set_add xs x) = insert x (set xs)"
  by (auto simp: set_add_def)

lemma distinct_set_add: "distinct xs \<Longrightarrow> distinct (set_add xs x)"
  by (simp add: set_add_def)

lemma set_foldl_set_add: "set (foldl set_add acc xs) = set acc \<union> set xs"
  by (induction xs arbitrary: acc) (auto simp: set_set_add)

lemma distinct_foldl_set_add: "distinct acc \<Longrightarrow> distinct (foldl set_add acc xs)"
  by (induction xs arbitrary: acc) (auto simp: distinct_set_add)

lemma set_new_Set: "set (new_Set xs) = set xs"
  by (simp add: new_Set_def set_foldl_set_add)

lemma update_nonempty: "AList.update k v m \<noteq> []"
  by (cases m) auto

lemma conceptMap_nonempty: "m \<noteq> [] \<or> ps \<noteq> [] \<Longrightarrow> foldl conceptMap_step m ps \<noteq> []"
proof (induction ps arbitrary: m)
  case Nil
  then show ?case by simp
next
  case (Cons p ps)
  have "conceptMap_step m p \<noteq> []" by (simp add: conceptMap_step_def Let_def update_nonempty)
  then show ?case using Cons.IH[of "conceptMap_step m p"] by simp
qed

lemma coverage_concepts_empty: "coverage_concepts packages = [] \<longleftrightarrow> packages = []"
proof
  assume "coverage_concepts packages = []"
  then have "conceptMap_of packages = []"
    by (metis coverage_concepts_def length_0_conv length_map length_sort)
  then show "packages = []" using conceptMap_nonempty[of "[]" packages]
    by (auto simp: conceptMap_of_def)
next
  assume "packages = []"
  then show "coverage_concepts packages = []"
    by (simp add: coverage_concepts_def conceptMap_of_def)
qed

lemma coverage_languages_empty: "coverage_languages packages = [] \<longleftrightarrow> packages = []"
proof -
  have "coverage_languages packages = [] \<longleftrightarrow> set (languages_of packages) = {}"
    by (metis coverage_languages_def length_0_conv length_sort set_empty)
  then show ?thesis by (simp add: languages_of_def set_new_Set)
qed

lemma totalSlots_pos: "packages \<noteq> [] \<Longrightarrow> 0 < totalSlots packages"
  using coverage_concepts_empty[of packages] coverage_languages_empty[of packages]
  by (simp add: totalSlots_def zero_less_mult_iff)

lemma coverage_matrix_head:
  "\<exists>rest. coverage_matrix toFixed0 packages = ''# Cross-Language Coverage Matrix'' @ rest"
  by (simp add: coverage_matrix_def Let_def)

text \<open>
  Claim C4.  For the empty registry \<open>getCrossLanguageCoverage\<close> returns exactly the
  sentinel, whatever the rendering of the percentage is, and for no other registry.  The
  matrix is rendered only for a non-empty registry, whose number of slots is positive: the
  quotient of the percentage never has the divisor zero, and \<open>NaN\<close> is never rendered.
\<close>

theorem coverage_empty_registry:
  "getCrossLanguageCoverage toFixed0 [] = ''No packages available.''
   \<and> (getCrossLanguageCoverage toFixed0 packages = ''No packages available.'' \<longleftrightarrow> packages = [])
   \<and> (packages \<noteq> [] \<longrightarrow>
        getCrossLanguageCoverage toFixed0 packages = coverage_matrix toFixed0 packages
      \<and> 0 < totalSlots packages
      \<and> coverage_percent toFixed0 (gapCount packages) (totalSlots packages)
          = toFixed0 (gapCount packages) (totalSlots packages))"
proof -
  have a: "getCrossLanguageCoverage toFixed0 [] = ''No packages available.''"
    by (simp add: getCrossLanguageCoverage_def coverage_concepts_empty)
  have c: "packages \<noteq> [] \<Longrightarrow>
        getCrossLanguageCoverage toFixed0 packages = coverage_matrix toFixed0 packages"
    by (simp add: getCrossLanguageCoverage_def coverage_concepts_empty)
  have "packages \<noteq> [] \<Longrightarrow> getCrossLanguageCoverage toFixed0 packages \<noteq> ''No packages available.''"
    using coverage_matrix_head[of toFixed0 packages] c by auto
  then have b: "getCrossLanguageCoverage toFixed0 packages = ''No packages available.'' \<longleftrightarrow> packages = []"
    using a by auto
  have d: "packages \<noteq> [] \<Longrightarrow> coverage_percent toFixed0 (gapCount packages) (totalSlots packages)
          = toFixed0 (gapCount packages) (totalSlots packages)"
    using totalSlots_pos[of packages] by (simp add: coverage_percent_def)
  show ?thesis using a b c d totalSlots_pos by blast
qed


theorem coverage_empty_registry_witness:
  "getCrossLanguageCoverage nearest_percent [] = ''No packages available.''
   \<and> SYNTHETIC_PACKAGES \<noteq> [] \<and> 0 < totalSlots SYNTHETIC_PACKAGES
   \<and> getCrossLanguageCoverage nearest_percent SYNTHETIC_PACKAGES \<noteq> ''No packages available.''
   \<and> coverage_percent nearest_percent (gapCount SYNTHETIC_PACKAGES) (totalSlots SYNTHETIC_PACKAGES)
       = nearest_percent (gapCount SYNTHETIC_PACKAGES) (totalSlots SYNTHETIC_PACKAGES)"
proof -
  have ne: "SYNTHETIC_PACKAGES \<noteq> []" by (simp add: SYNTHETIC_PACKAGES_def)
  from coverage_empty_registry[of nearest_percent SYNTHETIC_PACKAGES] ne
  show ?thesis by metis
qed

section \<open>Reverse dependencies of the empty registry\<close>

text \<open>
  Claim C5, as the code has it.  For the empty registry the tool \<open>get_dependency_graph\<close>
  answers every request, with or without a name, with the sentinel followed by the hint
  on the empty registry, and calls neither report.  The method \<open>getReverseDependencies\<close>
  has no case for the empty registry: it returns the ordinary report, with no language
  and no dependent.
\<close>

theorem reverse_dependencies_empty_registry:
  "get_dependency_graph_tool localeCompare [] nm
     = TextResult (''No packages available.'' @ EMPTY_REGISTRY_HINT)
   \<and> getReverseDependencies localeCompare [] cid
     = ''# Dependency Info: '' @ cid @ nl @ nl @ ''**Available in:** '' @ nl @ nl
       @ ''No other ZK-Kit packages depend on '' @ cid @ ''.'' @ nl"
  by (simp add: get_dependency_graph_tool_def getReverseDependencies_def Let_def languages_of_def
      new_Set_def)

theorem reverse_dependencies_empty_registry_witness:
  "get_dependency_graph_tool codeunit_compare [] (Some ''ecdh'')
     = TextResult (''No packages available.'' @ EMPTY_REGISTRY_HINT)
   \<and> get_dependency_graph_tool codeunit_compare [] None
     = TextResult (''No packages available.'' @ EMPTY_REGISTRY_HINT)"
  using reverse_dependencies_empty_registry[of codeunit_compare "Some ''ecdh''"]
    reverse_dependencies_empty_registry[of codeunit_compare None]
  by simp

text \<open>
  Claim C5 as stated fails: for the empty registry and the concept \<open>ecdh\<close> the method
  returns a dependency report, not the sentinel.
\<close>

theorem reverse_dependencies_no_sentinel_counterexample:
  "getReverseDependencies codeunit_compare [] ''ecdh''
     = ''# Dependency Info: ecdh'' @ nl @ nl @ ''**Available in:** '' @ nl @ nl
       @ ''No other ZK-Kit packages depend on ecdh.'' @ nl
   \<and> getReverseDependencies codeunit_compare [] ''ecdh'' \<noteq> ''No packages available.''"
  by (simp add: getReverseDependencies_def Let_def languages_of_def new_Set_def)


section \<open>The dependency graph\<close>






















lemmas graph_eval = build_graph_def pkg_step_def dep_step_def ensure_key_def add_to_def
  set_add_def langs_of_def size_at_def classify_def classify_step_def Let_def
  languages_of_def new_Set_def


lemma chain_classes:
  "classify chain = \<lparr> foundational = [''b'', ''c''], leaf = [''a''], independent = [] \<rparr>"
  by (simp add: graph_eval chain_def makePackage_def)

lemma chain_graph:
  "getDependencyGraph chain =
     ''# ZK-Kit Internal Dependency Graph'' @ nl @ nl
     @ ''**3 concepts**, **2 internal dependencies**'' @ nl @ nl
     @ ''## Foundational Packages'' @ nl @ nl
     @ ''Depended on by other ZK-Kit packages:'' @ nl @ nl
     @ ''- **b** (typescript): used by a'' @ nl
     @ ''- **c** (typescript): used by b'' @ nl @ nl
     @ ''## Leaf Packages'' @ nl @ nl
     @ ''Depend on other ZK-Kit packages but are not depended on:'' @ nl @ nl
     @ ''- **a** (typescript): depends on b'' @ nl @ nl"
  by (simp add: getDependencyGraph_def chain_classes)
     (simp add: graph_eval chain_def makePackage_def nl_def)



section \<open>Discovery\<close>






lemma allSettled_never_rejects:
  "allSettled order tasks = None \<or> (\<exists>slots. allSettled order tasks = Some slots)"
  by (cases "allSettled order tasks") auto














lemma surviving_failed: "l (slug cfg) (packagePath cfg) = Inl reason \<Longrightarrow> surviving_of_repo l m cfg = []"
  by (simp add: surviving_of_repo_def)








subsection \<open>The order of the result\<close>


















end
